theory Spec2Isabelle
  imports Complex_Main
begin

section \<open>JavaScript values\<close>

text \<open>
  The values that reach the modelled functions. Numbers are IEEE doubles in the program.
  The model keeps the finite ones as exact rationals and has \<open>NaN\<close> and the two
  infinities as values of their own. The integers and the quotients by 8192 computed
  below are exact as doubles too; a quotient by 127 is rounded in the program and exact
  in the model.
\<close>

datatype jsval =
    JUndefined
  | JBool bool
  | JNum rat
  | JNaN
  | JPosInfinity
  | JNegInfinity
  | JStr string

text \<open>The exceptions the modelled code can throw.\<close>

datatype error = TypeError | RangeError | ReferenceError | Error

text \<open>ToBoolean: what an \<open>if\<close>, \<open>&&\<close> or \<open>||\<close> makes of a value.\<close>

fun truthy :: "jsval \<Rightarrow> bool" where
  "truthy JUndefined = False"
| "truthy (JBool b) = b"
| "truthy (JNum x) = (x \<noteq> 0)"
| "truthy JNaN = False"
| "truthy JPosInfinity = True"
| "truthy JNegInfinity = True"
| "truthy (JStr s) = (s \<noteq> [])"

text \<open>\<open>Math.round\<close>: the nearest integer, a tie going up.\<close>

definition js_round :: "rat \<Rightarrow> int" where
  "js_round x = \<lfloor>x + 1 / 2\<rfloor>"

definition clamp :: "rat \<Rightarrow> rat \<Rightarrow> rat \<Rightarrow> rat" where
  "clamp x lo hi = max lo (min hi x)"

section \<open>Numeric conversion utilities\<close>

text \<open>
  Modelled from the spec: the bodies of \<open>Utilities.from7bitToFloat\<close> and
  \<open>Utilities.fromFloatTo7Bit\<close> are missing (only their declarations are in
  \<open>Input.d.ts\<close>). The spec: \<open>from7bitToFloat(v)\<close> returns \<open>clamp(v,0,127)/127\<close>;
  \<open>+Infinity\<close> gives 1, \<open>-Infinity\<close> gives 0; non-numeric input gives 0.
\<close>

fun from7bitToFloat :: "jsval \<Rightarrow> rat" where
  "from7bitToFloat (JNum v) = clamp v 0 127 / 127"
| "from7bitToFloat JPosInfinity = 1"
| "from7bitToFloat JNegInfinity = 0"
| "from7bitToFloat _ = 0"

text \<open>
  Modelled from the spec: \<open>fromFloatTo7Bit(v)\<close> returns \<open>round(clamp(v,0,1) * 127)\<close>,
  with the same handling of the infinities and of non-numeric input, in the inverse
  direction.
\<close>

fun fromFloatTo7Bit :: "jsval \<Rightarrow> int" where
  "fromFloatTo7Bit (JNum v) = js_round (clamp v 0 1 * 127)"
| "fromFloatTo7Bit JPosInfinity = 127"
| "fromFloatTo7Bit JNegInfinity = 0"
| "fromFloatTo7Bit _ = 0"

text \<open>
  Modelled from the spec: \<open>Utilities.toNormalized\<close>, which the channel parser calls, is
  missing. The spec's dispatch table gives the value of every event the parser
  normalises as \<open>from7bitToFloat\<close> of the data byte.
\<close>

definition toNormalized :: "jsval \<Rightarrow> rat" where
  "toNormalized v = from7bitToFloat v"

text \<open>
  Modelled from the spec: \<open>Utilities.offsetNumber\<close> is missing. The spec has the note
  number offset by the sum of the octave offsets before the note is built; the
  function's declaration adds that the result is 0 when it would be below 0 and 127 when
  it would be above 127, and that an invalid note number throws \<open>Error\<close>. The parser
  passes it a data byte, which is invalid only when absent.
\<close>

fun offsetNumber :: "nat option \<Rightarrow> int \<Rightarrow> int \<Rightarrow> error + int" where
  "offsetNumber None octaveOffset semitoneOffset = Inl Error"
| "offsetNumber (Some n) octaveOffset semitoneOffset =
     Inr (min (max (int n + octaveOffset * 12 + semitoneOffset) 0) 127)"

section \<open>Messages, notes and events\<close>

text \<open>
  A decoded message as the channel parser reads it: its type tag, its data bytes, and the
  whole message (\<open>data\<close>, status byte first). Bytes come from a \<open>Uint8Array\<close>.
\<close>

record message =
  mtype :: string
  dataBytes :: "nat list"
  data :: "nat list"

text \<open>Reading an array at an index: \<open>undefined\<close> (here \<open>None\<close>) past the end.\<close>

definition nth_opt :: "'a list \<Rightarrow> nat \<Rightarrow> 'a option" where
  "nth_opt xs i = (if i < length xs then Some (xs ! i) else None)"

definition byte :: "nat option \<Rightarrow> jsval" where
  "byte b = (case b of None \<Rightarrow> JUndefined | Some n \<Rightarrow> JNum (of_nat n))"

text \<open>
  Modelled from the spec: \<open>Note.js\<close>, which the channel parser imports, is missing. The
  spec's Note has a number and attack and release velocities between 0 and 1, derived
  from the raw 7-bit ones by linear scaling; a raw velocity given in the options wins,
  and the defaults are those of \<open>WebMidi.defaults.note\<close>, \<open>from7bitToFloat(64)\<close>. The
  identifier string, which the number determines, is left out.
\<close>

record Note =
  note_number :: int
  attack :: rat
  release :: rat

definition Note_new :: "int \<Rightarrow> nat option \<Rightarrow> nat option \<Rightarrow> Note" where
  "Note_new n rawAttack rawRelease =
     \<lparr> note_number = n,
       attack = (case rawAttack of None \<Rightarrow> from7bitToFloat (JNum 64)
                 | Some a \<Rightarrow> from7bitToFloat (JNum (of_nat a))),
       release = (case rawRelease of None \<Rightarrow> from7bitToFloat (JNum 64)
                  | Some r \<Rightarrow> from7bitToFloat (JNum (of_nat r))) \<rparr>"

definition rawAttack :: "Note \<Rightarrow> int" where
  "rawAttack nt = fromFloatTo7Bit (JNum (attack nt))"

definition rawRelease :: "Note \<Rightarrow> int" where
  "rawRelease nt = fromFloatTo7Bit (JNum (release nt))"

text \<open>
  The event object the parser builds and emits. A field the parser has not set is
  \<open>undefined\<close> (\<open>JUndefined\<close> or \<open>None\<close>). The controller is its number and its name,
  the name being \<open>undefined\<close> when the table has none. The \<open>target\<close> and the
  \<open>timestamp\<close>, which the parser copies and never reads, are left out.
\<close>

record event =
  ev_type :: string
  ev_message :: message
  ev_value :: jsval
  ev_rawValue :: jsval
  ev_controller :: "(jsval \<times> string option) option"
  ev_note :: "Note option"
  ev_identifier :: "string option"
  ev_key :: "int option"
  ev_rawKey :: jsval
  ev_velocity :: jsval
  ev_rawVelocity :: jsval

text \<open>
  What the parser reads from outside the channel: the \<open>WebMidi.validation\<close> flag, the
  global octave offset, the table \<open>WebMidi.MIDI_CONTROL_CHANGE_MESSAGES\<close> (property
  names with their numbers, in the object's order), and the two \<open>Utilities\<close> functions
  that turn a note number into an identifier and back. The table and the two functions
  are missing from the sources, so they are parameters. The octave offsets are integers,
  as their documentation says.
\<close>

record environment =
  validation :: bool
  MIDI_CONTROL_CHANGE_MESSAGES :: "(string \<times> nat) list"
  WebMidi_octaveOffset :: int
  toNoteIdentifier :: "nat option \<Rightarrow> int \<Rightarrow> error + string"
  toNoteNumber :: "string \<Rightarrow> error + int"

record InputChannel =
  ch_number :: nat
  ch_octaveOffset :: int
  input_octaveOffset :: int

text \<open>
  What a call of the parser leaves behind: the events it emitted, in order, and the
  exception that ended it, if any. The channel emits with the \<open>emit\<close> of the emitter
  class it extends; an emitted event is a call \<open>this.emit(event.type, event)\<close>,
  recorded with its two arguments.
\<close>

type_synonym outcome = "(string \<times> event) list \<times> error option"

definition emit_event :: "event \<Rightarrow> outcome" where
  "emit_event ev = ([(ev_type ev, ev)], None)"

definition throw :: "error \<Rightarrow> outcome" where
  "throw err = ([], Some err)"

text \<open>Running \<open>q\<close> after \<open>p\<close>, unless \<open>p\<close> threw.\<close>

definition andThen :: "outcome \<Rightarrow> outcome \<Rightarrow> outcome" where
  "andThen p q = (case snd p of Some err \<Rightarrow> p | None \<Rightarrow> (fst p @ fst q, snd q))"

section \<open>The channel parser\<close>

text \<open>
  Modelled from the spec: \<open>Utilities.getPropertyByValue\<close> is missing. The spec has the
  controller name looked up by number; the function's declaration says that it returns
  the name of the first property whose value equals the one supplied, and \<open>undefined\<close>
  if there is none.
\<close>

fun getPropertyByValue :: "(string \<times> nat) list \<Rightarrow> nat option \<Rightarrow> string option" where
  "getPropertyByValue [] v = None"
| "getPropertyByValue ((name, n) # rest) v =
     (if v = Some n then Some name else getPropertyByValue rest v)"

text \<open>
  \<open>getCcNameByNumber\<close>. Under validation the number goes through \<open>parseInt\<close>, which
  leaves a byte as it is and makes \<open>NaN\<close> of \<open>undefined\<close>; \<open>NaN\<close> fails the range test.
\<close>

definition getCcNameByNumber :: "environment \<Rightarrow> nat option \<Rightarrow> error + string option" where
  "getCcNameByNumber env number =
     (if validation env \<and> \<not> (case number of None \<Rightarrow> False | Some n \<Rightarrow> n \<le> 127)
      then Inl RangeError
      else Inr (getPropertyByValue (MIDI_CONTROL_CHANGE_MESSAGES env) number))"

text \<open>
  \<open>_parseChannelModeMessage\<close>. The new event takes the controller's name as its type.
  When the table has no name for the number the type is \<open>undefined\<close>, and \<open>emit\<close>
  throws a \<open>TypeError\<close> for an event name that is not a string.
\<close>

definition parseChannelModeMessage :: "event \<Rightarrow> outcome" where
  "parseChannelModeMessage e =
     (case ev_controller e of
        None \<Rightarrow> throw TypeError
      | Some (number, None) \<Rightarrow> throw TypeError
      | Some (number, Some name) \<Rightarrow>
          (let event = e\<lparr>ev_type := name\<rparr>;
               event = (if ev_type event = ''localcontrol''
                        then event\<lparr>ev_value :=
                               JBool (nth_opt (data (ev_message event)) 2 = Some 127)\<rparr>
                        else event);
               event = (if ev_type event = ''omnimodeon''
                        then event\<lparr>ev_type := ''omnimode'', ev_value := JBool True\<rparr>
                        else if ev_type event = ''omnimodeoff''
                        then event\<lparr>ev_type := ''omnimode'', ev_value := JBool False\<rparr>
                        else event);
               event = (if ev_type event = ''monomodeon''
                        then event\<lparr>ev_type := ''monomode'', ev_value := JBool True\<rparr>
                        else if ev_type event = ''polymodeon''
                        then event\<lparr>ev_type := ''monomode'', ev_value := JBool False\<rparr>
                        else event)
           in emit_event event))"

text \<open>
  \<open>x << 7\<close> on a data byte: the product with 128 as a signed 32-bit integer, the
  wrap-around written out; \<open>undefined\<close> converts to 0.
\<close>

definition shl7 :: "nat option \<Rightarrow> int" where
  "shl7 b =
     (case b of
        None \<Rightarrow> 0
      | Some n \<Rightarrow>
          (let u = (int n * 128) mod 2 ^ 32 in if u < 2 ^ 31 then u else u - 2 ^ 32))"

text \<open>\<open>i + b\<close> for an integer and a data byte: \<open>NaN\<close> when the byte is \<open>undefined\<close>.\<close>

definition plus_byte :: "int \<Rightarrow> nat option \<Rightarrow> jsval" where
  "plus_byte i b = (case b of None \<Rightarrow> JNaN | Some n \<Rightarrow> JNum (of_int (i + int n)))"

text \<open>\<open>(v - 8192) / 8192\<close> for a number or \<open>NaN\<close>.\<close>

definition bend :: "jsval \<Rightarrow> jsval" where
  "bend v = (case v of JNum x \<Rightarrow> JNum ((x - 8192) / 8192) | _ \<Rightarrow> JNaN)"

text \<open>\<open>_parseEventForStandardMessages\<close>, branch by branch in the order of the source.\<close>

definition parseEventForStandardMessages ::
    "environment \<Rightarrow> InputChannel \<Rightarrow> event \<Rightarrow> outcome" where
  "parseEventForStandardMessages env ch e =
     (let event = e\<lparr>ev_type := (if mtype (ev_message e) = [] then ''unknownmidimessage''
                                   else mtype (ev_message e))\<rparr>;
          data1 = nth_opt (dataBytes (ev_message e)) 0;
          data2 = nth_opt (dataBytes (ev_message e)) 1;
          offset = ch_octaveOffset ch + input_octaveOffset ch + WebMidi_octaveOffset env
      in
      if ev_type event = ''noteoff'' \<or> (ev_type event = ''noteon'' \<and> data2 = Some 0) then
        (case offsetNumber data1 offset 0 of
           Inl err \<Rightarrow> throw err
         | Inr n \<Rightarrow>
             (let nt = Note_new n (Some 0) data2
              in emit_event (event\<lparr>ev_note := Some nt,
                   ev_value := JNum (toNormalized (byte data2)),
                   ev_rawValue := byte data2,
                   ev_velocity := JNum (release nt),
                   ev_rawVelocity := JNum (of_int (rawRelease nt))\<rparr>)))
      else if ev_type event = ''noteon'' then
        (case offsetNumber data1 offset 0 of
           Inl err \<Rightarrow> throw err
         | Inr n \<Rightarrow>
             (let nt = Note_new n data2 None
              in emit_event (event\<lparr>ev_note := Some nt,
                   ev_value := JNum (toNormalized (byte data2)),
                   ev_rawValue := byte data2,
                   ev_velocity := JNum (attack nt),
                   ev_rawVelocity := JNum (of_int (rawAttack nt))\<rparr>)))
      else if ev_type event = ''keyaftertouch'' then
        (case toNoteIdentifier env data1 offset of
           Inl err \<Rightarrow> throw err
         | Inr ident \<Rightarrow>
             (case toNoteNumber env ident of
                Inl err \<Rightarrow> throw err
              | Inr k \<Rightarrow>
                  (case offsetNumber data1 offset 0 of
                     Inl err \<Rightarrow> throw err
                   | Inr n \<Rightarrow>
                       emit_event (event\<lparr>ev_identifier := Some ident,
                         ev_key := Some k,
                         ev_rawKey := byte data1,
                         ev_value := JNum (toNormalized (byte data2)),
                         ev_rawValue := byte data2,
                         ev_note := Some (Note_new n None None)\<rparr>))))
      else if ev_type event = ''controlchange'' then
        (case getCcNameByNumber env data1 of
           Inl err \<Rightarrow> throw err
         | Inr name \<Rightarrow>
             (let event = event\<lparr>ev_controller := Some (byte data1, name),
                    ev_value := JNum (toNormalized (byte data2)),
                    ev_rawValue := byte data2\<rparr>
              in andThen
                   (if (case data1 of None \<Rightarrow> False | Some n \<Rightarrow> 120 \<le> n)
                    then parseChannelModeMessage event else ([], None))
                   (emit_event event)))
      else if ev_type event = ''programchange'' then
        emit_event (event\<lparr>ev_value := plus_byte 1 data1, ev_rawValue := byte data1\<rparr>)
      else if ev_type event = ''channelaftertouch'' then
        emit_event (event\<lparr>ev_value := JNum (toNormalized (byte data1)),
          ev_rawValue := byte data1\<rparr>)
      else if ev_type event = ''pitchbend'' then
        emit_event (event\<lparr>ev_value := bend (plus_byte (shl7 data2) data1),
          ev_rawValue := plus_byte (shl7 data2) data1\<rparr>)
      else
        emit_event (event\<lparr>ev_type := ''unknownmessage''\<rparr>))"

text \<open>
  \<open>_processMidiMessageEvent\<close>: the \<open>midimessage\<close> event first, then the parser on that
  event. The call of the parameter-number parser that follows in the source is commented
  out, as is that parser, so nothing more happens.
\<close>

definition midimessage_event :: "message \<Rightarrow> event" where
  "midimessage_event m =
     \<lparr> ev_type = ''midimessage'', ev_message = m, ev_value = JUndefined,
       ev_rawValue = JUndefined, ev_controller = None, ev_note = None,
       ev_identifier = None, ev_key = None, ev_rawKey = JUndefined,
       ev_velocity = JUndefined, ev_rawVelocity = JUndefined \<rparr>"

definition processMidiMessageEvent ::
    "environment \<Rightarrow> InputChannel \<Rightarrow> message \<Rightarrow> outcome" where
  "processMidiMessageEvent env ch m =
     andThen (emit_event (midimessage_event m))
       (parseEventForStandardMessages env ch (midimessage_event m))"

section \<open>The octave-offset setters\<close>

text \<open>
  \<open>parseInt\<close> on the values of the model. A string is read after its leading blanks: an
  optional sign, then the hexadecimal digits after \<open>0x\<close> or \<open>0X\<close>, or else the leading
  decimal digits; no digit gives \<open>NaN\<close>. A number is cut towards zero (the numbers that
  print in exponent notation, from 1e21 on and below 1e-6, are read differently by the
  program and lie outside what the model covers). Everything else gives \<open>NaN\<close>.
\<close>

definition digit_value :: "nat \<Rightarrow> char \<Rightarrow> nat option" where
  "digit_value radix c =
     (let k = (of_char c :: nat);
          d = (if 48 \<le> k \<and> k \<le> 57 then Some (k - 48)
               else if 97 \<le> k \<and> k \<le> 102 then Some (k - 87)
               else if 65 \<le> k \<and> k \<le> 70 then Some (k - 55)
               else None)
      in case d of None \<Rightarrow> None | Some v \<Rightarrow> if v < radix then Some v else None)"

fun leading_digits :: "nat \<Rightarrow> string \<Rightarrow> nat option \<Rightarrow> nat option" where
  "leading_digits radix [] acc = acc"
| "leading_digits radix (c # cs) acc =
     (case digit_value radix c of
        None \<Rightarrow> acc
      | Some v \<Rightarrow> leading_digits radix cs
                    (Some (radix * (case acc of None \<Rightarrow> 0 | Some a \<Rightarrow> a) + v)))"

definition is_blank :: "char \<Rightarrow> bool" where
  "is_blank c = ((of_char c :: nat) \<in> {9, 10, 11, 12, 13, 32})"

definition parse_magnitude :: "string \<Rightarrow> nat option" where
  "parse_magnitude s =
     (if take 2 s = ''0x'' \<or> take 2 s = ''0X'' then leading_digits 16 (drop 2 s) None
      else leading_digits 10 s None)"

definition parse_signed :: "string \<Rightarrow> jsval" where
  "parse_signed s =
     (case s of
        [] \<Rightarrow> JNaN
      | c # cs \<Rightarrow>
          if c = CHR ''-'' then
            (case parse_magnitude cs of None \<Rightarrow> JNaN | Some n \<Rightarrow> JNum (- of_nat n))
          else
            (case parse_magnitude (if c = CHR ''+'' then cs else s) of
               None \<Rightarrow> JNaN | Some n \<Rightarrow> JNum (of_nat n)))"

fun js_parseInt :: "jsval \<Rightarrow> jsval" where
  "js_parseInt (JStr s) = parse_signed (dropWhile is_blank s)"
| "js_parseInt (JNum x) = JNum (of_int (if 0 \<le> x then \<lfloor>x\<rfloor> else \<lceil>x\<rceil>))"
| "js_parseInt _ = JNaN"

definition js_isNaN :: "jsval \<Rightarrow> bool" where
  "js_isNaN v = (v = JNaN)"

text \<open>
  The setter of \<open>InputChannel.octaveOffset\<close>, on what it reads and writes of the
  channel object: the property \<open>validation\<close> and the field \<open>_octaveOffset\<close>, which can
  hold any value once the setter has stored one unchecked. The constructor sets the
  field to 0 and sets no \<open>validation\<close> property, nor does the emitter class that the
  channel extends, so on a channel as constructed \<open>this.validation\<close> reads
  \<open>undefined\<close>. The setter gives the exception, if any, and the object afterwards.
\<close>

record channel_object =
  co_validation :: jsval
  co_octaveOffset :: jsval

definition InputChannel_new :: channel_object where
  "InputChannel_new = \<lparr> co_validation = JUndefined, co_octaveOffset = JNum 0 \<rparr>"

definition InputChannel_set_octaveOffset ::
    "channel_object \<Rightarrow> jsval \<Rightarrow> error option \<times> channel_object" where
  "InputChannel_set_octaveOffset this v =
     (if truthy (co_validation this) then
        (let v = js_parseInt v
         in if js_isNaN v then (Some TypeError, this)
            else (None, this\<lparr>co_octaveOffset := v\<rparr>))
      else (None, this\<lparr>co_octaveOffset := v\<rparr>))"

text \<open>
  The setter of \<open>WebMidi.octaveOffset\<close> in \<open>WebMidi.ts\<close>. Its parameter is named
  \<open>arg\<close> and its body reads the identifier \<open>value\<close>, which nothing declares: reading an
  identifier that is not in scope throws a \<open>ReferenceError\<close>.
\<close>

record WebMidi =
  wm_validation :: bool
  wm_octaveOffset :: jsval

definition read_identifier :: "(string \<rightharpoonup> jsval) \<Rightarrow> string \<Rightarrow> error + jsval" where
  "read_identifier scope name =
     (case scope name of None \<Rightarrow> Inl ReferenceError | Some v \<Rightarrow> Inr v)"

definition WebMidi_set_octaveOffset :: "WebMidi \<Rightarrow> jsval \<Rightarrow> error option \<times> WebMidi" where
  "WebMidi_set_octaveOffset w arg =
     (let scope = [''arg'' \<mapsto> arg]
      in if wm_validation w then
           (case read_identifier scope ''value'' of
              Inl err \<Rightarrow> (Some err, w)
            | Inr v \<Rightarrow>
                (let v = js_parseInt v
                 in if js_isNaN v then (Some TypeError, w)
                    else (None, w\<lparr>wm_octaveOffset := v\<rparr>)))
         else
           (case read_identifier scope ''value'' of
              Inl err \<Rightarrow> (Some err, w)
            | Inr v \<Rightarrow> (None, w\<lparr>wm_octaveOffset := v\<rparr>)))"

section \<open>The event emitter\<close>

text \<open>
  The \<open>event\<close> argument of the emitter's methods: a string, the symbol
  \<open>EventEmitter.ANY_EVENT\<close>, or \<open>undefined\<close> (the declared type \<open>string | Symbol\<close>
  leaves nothing else). \<open>String(event)\<close> is the key of the event map.
\<close>

datatype event_name = EvString string | ANY_EVENT | EvUndefined

fun String_of :: "event_name \<Rightarrow> string" where
  "String_of (EvString s) = s"
| "String_of ANY_EVENT = ''Symbol(Any event)''"
| "String_of EvUndefined = ''undefined''"

text \<open>
  A callback argument is a function, known by its identity, or something that is not a
  function. A context is the emitter itself (the default, \<open>target\<close>), another object, or
  a falsy value. The remaining count of a listener is an integer or \<open>Infinity\<close>.
\<close>

datatype callback = Function nat | NotAFunction

datatype receiver = Target | Object nat | Falsy

datatype remaining = Finite int | Infinity

fun truthy_context :: "receiver \<Rightarrow> bool" where
  "truthy_context Falsy = False"
| "truthy_context _ = True"

fun truthy_remaining :: "remaining \<Rightarrow> bool" where
  "truthy_remaining (Finite n) = (n \<noteq> 0)"
| "truthy_remaining Infinity = True"

fun positive :: "remaining \<Rightarrow> bool" where
  "positive (Finite n) = (0 < n)"
| "positive Infinity = True"

fun below_one :: "remaining \<Rightarrow> bool" where
  "below_one (Finite n) = (n < 1)"
| "below_one Infinity = False"

fun decrement :: "remaining \<Rightarrow> remaining" where
  "decrement (Finite n) = Finite (n - 1)"
| "decrement Infinity = Infinity"

text \<open>
  The \<open>arguments\<close> option: an array, or a single value that the constructor wraps into
  one.
\<close>

datatype arguments = Array "jsval list" | Single jsval

text \<open>
  The options of \<open>addListener\<close>, a property that is absent being \<open>None\<close>. The
  \<open>duration\<close> option only arms a timer, which fires after the call has returned; it is
  left out. The count is an integer, on which \<open>Number\<close> (in \<open>Listener.ts\<close>) and
  \<open>parseInt\<close> (in \<open>Listener.js\<close>) agree.
\<close>

record options =
  o_context :: "receiver option"
  o_prepend :: bool
  o_remaining :: "int option"
  o_arguments :: "arguments option"

record Listener =
  l_event :: event_name
  l_callback :: nat
  l_context :: receiver
  l_remaining :: remaining
  l_suspended :: bool
  l_arguments :: "jsval list option"
  l_count :: nat

text \<open>
  The constructor of \<open>Listener\<close>. Its \<open>target\<close> is the emitter that calls it, which is
  an object, so the test of the target passes. With no options the first read,
  \<open>options.arguments\<close>, is a read of a property of \<open>undefined\<close>: a \<open>TypeError\<close>.
\<close>

definition Listener_new :: "event_name \<Rightarrow> callback \<Rightarrow> options option \<Rightarrow> error + Listener" where
  "Listener_new event cb opts =
     (if event = EvUndefined then Inl TypeError
      else case cb of
        NotAFunction \<Rightarrow> Inl TypeError
      | Function f \<Rightarrow>
          (case opts of
             None \<Rightarrow> Inl TypeError
           | Some os \<Rightarrow>
               Inr \<lparr> l_event = event, l_callback = f,
                     l_context = (case o_context os of None \<Rightarrow> Target | Some c \<Rightarrow> c),
                     l_remaining = (case o_remaining os of
                                      None \<Rightarrow> Infinity
                                    | Some n \<Rightarrow> if 1 \<le> n then Finite n else Infinity),
                     l_suspended = False,
                     l_arguments = (case o_arguments os of
                                      None \<Rightarrow> None
                                    | Some (Array xs) \<Rightarrow> Some xs
                                    | Some (Single x) \<Rightarrow> Some [x]),
                     l_count = 0 \<rparr>))"

text \<open>
  The emitter. Listeners are objects that the event map and a running \<open>emit\<close> share and
  that \<open>emit\<close> updates in place, so they live in a store and the event map holds
  references to them; \<open>allocated\<close> is the next free reference.
\<close>

record EventEmitter =
  eventMap :: "string \<rightharpoonup> nat list"
  eventsSuspended :: bool
  listeners :: "nat \<rightharpoonup> Listener"
  allocated :: nat

definition EventEmitter_new :: "bool \<Rightarrow> EventEmitter" where
  "EventEmitter_new suspended =
     \<lparr> eventMap = Map.empty, eventsSuspended = suspended,
       listeners = Map.empty, allocated = 0 \<rparr>"

text \<open>
  \<open>addListener\<close> gives the reference of the new listener or the exception, and the
  emitter afterwards.
\<close>

definition addListener ::
    "EventEmitter \<Rightarrow> event_name \<Rightarrow> callback \<Rightarrow> options option
      \<Rightarrow> (error + nat) \<times> EventEmitter" where
  "addListener em event cb opts =
     (if (case event of EvString s \<Rightarrow> s = [] | ANY_EVENT \<Rightarrow> False | EvUndefined \<Rightarrow> True)
      then (Inl TypeError, em)
      else if cb = NotAFunction then (Inl TypeError, em)
      else case Listener_new event cb opts of
        Inl err \<Rightarrow> (Inl err, em)
      | Inr l \<Rightarrow>
          (let r = allocated em;
               key = String_of event;
               em = em\<lparr>listeners := (listeners em)(r \<mapsto> l), allocated := r + 1\<rparr>;
               em = (if eventMap em key = None
                     then em\<lparr>eventMap := (eventMap em)(key \<mapsto> [])\<rparr> else em);
               registered = (case eventMap em key of None \<Rightarrow> [] | Some rs \<Rightarrow> rs)
           in case opts of
                None \<Rightarrow> (Inl TypeError, em)
              | Some os \<Rightarrow>
                  if o_prepend os
                  then (Inr r, em\<lparr>eventMap := (eventMap em)(key \<mapsto> r # registered)\<rparr>)
                  else (Inr r, em\<lparr>eventMap := (eventMap em)(key \<mapsto> registered @ [r])\<rparr>)))"

text \<open>
  \<open>removeListener\<close>. The filter keeps the listeners that do not match. Its second and
  third tests read the options, so with no options they throw as soon as a listener
  gets past the first test.
\<close>

record remove_options =
  r_context :: "receiver option"
  r_remaining :: "remaining option"

definition passes_callback :: "nat option \<Rightarrow> Listener \<Rightarrow> bool" where
  "passes_callback cb l = (case cb of None \<Rightarrow> False | Some f \<Rightarrow> l_callback l \<noteq> f)"

definition passes_options :: "remove_options \<Rightarrow> Listener \<Rightarrow> bool" where
  "passes_options os l =
     ((case r_remaining os of None \<Rightarrow> False
        | Some n \<Rightarrow> truthy_remaining n \<and> n \<noteq> l_remaining l)
      \<or> (case r_context os of None \<Rightarrow> False
          | Some c \<Rightarrow> truthy_context c \<and> c \<noteq> l_context l))"

definition lookup_all :: "EventEmitter \<Rightarrow> nat list \<Rightarrow> (nat \<times> Listener) list" where
  "lookup_all em rs =
     concat (map (\<lambda>r. case listeners em r of None \<Rightarrow> [] | Some l \<Rightarrow> [(r, l)]) rs)"

definition store_kept :: "EventEmitter \<Rightarrow> string \<Rightarrow> nat list \<Rightarrow> EventEmitter" where
  "store_kept em key kept =
     (if kept \<noteq> [] then em\<lparr>eventMap := (eventMap em)(key \<mapsto> kept)\<rparr>
      else em\<lparr>eventMap := (eventMap em)(key := None)\<rparr>)"

definition removeListener ::
    "EventEmitter \<Rightarrow> event_name \<Rightarrow> nat option \<Rightarrow> remove_options option
      \<Rightarrow> error option \<times> EventEmitter" where
  "removeListener em event cb opts =
     (if event = EvUndefined then (None, em\<lparr>eventMap := Map.empty\<rparr>)
      else case eventMap em (String_of event) of
        None \<Rightarrow> (None, em)
      | Some rs \<Rightarrow>
          (case opts of
             None \<Rightarrow>
               if list_all (\<lambda>(r, l). passes_callback cb l) (lookup_all em rs)
               then (None, store_kept em (String_of event) (map fst (lookup_all em rs)))
               else (Some TypeError, em)
           | Some os \<Rightarrow>
               (None, store_kept em (String_of event)
                  (map fst (filter (\<lambda>(r, l). passes_callback cb l \<or> passes_options os l)
                              (lookup_all em rs))))))"

text \<open>
  One round of the \<open>forEach\<close> in \<open>emit\<close>, on the listener behind reference \<open>r\<close>. The
  callbacks are pure: \<open>run f params\<close> is what the function \<open>f\<close> returns on \<open>params\<close>
  (a callback that throws, or that calls the emitter, is outside the model). The result
  of a callback is pushed when it is called, so the results are in the order of the
  calls.
\<close>

definition emit_step ::
    "(nat \<Rightarrow> jsval list \<Rightarrow> jsval) \<Rightarrow> jsval list \<Rightarrow> jsval list \<times> EventEmitter \<Rightarrow> nat
      \<Rightarrow> jsval list \<times> EventEmitter" where
  "emit_step run args state r =
     (let results = fst state; em = snd state
      in case listeners em r of
        None \<Rightarrow> state
      | Some l \<Rightarrow>
          if l_suspended l then state
          else
            (let params = args @ (case l_arguments l of None \<Rightarrow> [] | Some xs \<Rightarrow> xs);
                 results = (if positive (l_remaining l)
                            then results @ [run (l_callback l) params] else results);
                 l = (if positive (l_remaining l) then l\<lparr>l_count := l_count l + 1\<rparr> else l);
                 l = l\<lparr>l_remaining := decrement (l_remaining l)\<rparr>;
                 em = em\<lparr>listeners := (listeners em)(r \<mapsto> l)\<rparr>
             in if below_one (l_remaining l)
                then (results, snd (removeListener em (l_event l) (Some (l_callback l))
                        (Some \<lparr> r_context = Some (l_context l),
                                r_remaining = Some (l_remaining l) \<rparr>)))
                else (results, em)))"

text \<open>
  \<open>emit\<close> gives the exception or what the call returns, \<open>None\<close> being \<open>undefined\<close>, and
  the emitter afterwards.
\<close>

definition emit ::
    "EventEmitter \<Rightarrow> (nat \<Rightarrow> jsval list \<Rightarrow> jsval) \<Rightarrow> event_name \<Rightarrow> jsval list
      \<Rightarrow> (error + jsval list option) \<times> EventEmitter" where
  "emit em run event args =
     (case event of
        EvString s \<Rightarrow>
          if eventsSuspended em then (Inr None, em)
          else
            (let global = (case eventMap em (String_of ANY_EVENT) of
                             None \<Rightarrow> [] | Some rs \<Rightarrow> rs);
                 snapshot = (case eventMap em s of
                               None \<Rightarrow> global | Some rs \<Rightarrow> global @ rs);
                 final = foldl (emit_step run args) ([], em) snapshot
             in (Inr (Some (fst final)), snd final))
      | _ \<Rightarrow> (Inl TypeError, em))"

text \<open>
  For stating in what order \<open>emit\<close> calls: the array of listeners it goes through for
  a string event name, a listener that is neither suspended nor counted down, and what
  the callback of a listener returns on the arguments it gets.
\<close>

definition snapshot :: "EventEmitter \<Rightarrow> string \<Rightarrow> nat list" where
  "snapshot em s =
     (case eventMap em (String_of ANY_EVENT) of None \<Rightarrow> [] | Some rs \<Rightarrow> rs)
     @ (case eventMap em s of None \<Rightarrow> [] | Some rs \<Rightarrow> rs)"

definition steady :: "EventEmitter \<Rightarrow> nat \<Rightarrow> bool" where
  "steady em r =
     (case listeners em r of
        None \<Rightarrow> False
      | Some l \<Rightarrow> \<not> l_suspended l \<and> l_remaining l = Infinity)"

definition call ::
    "(nat \<Rightarrow> jsval list \<Rightarrow> jsval) \<Rightarrow> jsval list \<Rightarrow> EventEmitter \<Rightarrow> nat \<Rightarrow> jsval" where
  "call run args em r =
     (case listeners em r of
        None \<Rightarrow> JUndefined
      | Some l \<Rightarrow>
          run (l_callback l) (args @ (case l_arguments l of None \<Rightarrow> [] | Some xs \<Rightarrow> xs)))"

section \<open>Inputs for the examples\<close>

text \<open>
  Modelled from the spec: the table \<open>WebMidi.MIDI_CONTROL_CHANGE_MESSAGES\<close> is missing.
  The spec puts the channel-mode controllers at the numbers 120 to 127. Their names are
  the last eight of the controller events that the declaration of \<open>InputChannel\<close>
  lists in the order of the controller numbers: \<open>allsoundoff\<close>,
  \<open>resetallcontrollers\<close>, \<open>localcontrol\<close>, \<open>allnotesoff\<close>, \<open>omnimodeoff\<close>,
  \<open>omnimodeon\<close>, \<open>monomodeon\<close>, \<open>polymodeon\<close>. The spec has the last two the other
  way round.
\<close>

definition channel_mode_names :: "(string \<times> nat) list" where
  "channel_mode_names =
     [(''allsoundoff'', 120), (''resetallcontrollers'', 121), (''localcontrol'', 122),
      (''allnotesoff'', 123), (''omnimodeoff'', 124), (''omnimodeon'', 125),
      (''monomodeon'', 126), (''polymodeon'', 127)]"

text \<open>
  An environment with validation on and no global octave offset. The two note-name
  functions are placeholders that always throw; no message of the examples is a key
  aftertouch, the only kind that calls them.
\<close>

definition example_environment :: environment where
  "example_environment =
     \<lparr> validation = True, MIDI_CONTROL_CHANGE_MESSAGES = channel_mode_names,
       WebMidi_octaveOffset = 0,
       toNoteIdentifier = (\<lambda>number offset. Inl RangeError),
       toNoteNumber = (\<lambda>identifier. Inl RangeError) \<rparr>"

definition example_channel :: InputChannel where
  "example_channel = \<lparr> ch_number = 1, ch_octaveOffset = 0, input_octaveOffset = 0 \<rparr>"

text \<open>A message of channel 1 with two data bytes, given its type and status byte.\<close>

definition channel_message :: "string \<Rightarrow> nat \<Rightarrow> nat \<Rightarrow> nat \<Rightarrow> message" where
  "channel_message t status d1 d2 = \<lparr> mtype = t, dataBytes = [d1, d2], data = [status, d1, d2] \<rparr>"

definition controlchange_message :: "nat \<Rightarrow> nat \<Rightarrow> message" where
  "controlchange_message controller v = channel_message ''controlchange'' 176 controller v"

text \<open>The names of the emitted events, and the names with the events' values.\<close>

definition emitted_names :: "outcome \<Rightarrow> string list" where
  "emitted_names out = map fst (fst out)"

definition emitted_values :: "outcome \<Rightarrow> (string \<times> jsval \<times> jsval) list" where
  "emitted_values out = map (\<lambda>(name, ev). (name, ev_value ev, ev_rawValue ev)) (fst out)"

text \<open>The names of the parameter-number events, as the spec lists them.\<close>

definition parameter_number_events :: "string list" where
  "parameter_number_events =
     [''nrpn'', ''nrpn-dataentrycoarse'', ''nrpn-dataentryfine'', ''nrpn-dataincrement'',
      ''nrpn-datadecrement'', ''rpn'', ''rpn-dataentrycoarse'', ''rpn-dataentryfine'',
      ''rpn-dataincrement'', ''rpn-datadecrement'']"

text \<open>
  Two callbacks, number 1 called A and number 2 called B, each returning its name, and
  the options object \<open>{}\<close>.
\<close>

definition named_callbacks :: "nat \<Rightarrow> jsval list \<Rightarrow> jsval" where
  "named_callbacks f params = (if f = 1 then JStr ''A'' else JStr ''B'')"

definition no_options :: options where
  "no_options = \<lparr> o_context = None, o_prepend = False, o_remaining = None, o_arguments = None \<rparr>"

text \<open>
  The emitter after \<open>addListener("noteon", A, {})\<close> and then
  \<open>addListener(EventEmitter.ANY_EVENT, B, {})\<close>.
\<close>

definition emitter_A_then_B :: EventEmitter where
  "emitter_A_then_B =
     snd (addListener
            (snd (addListener (EventEmitter_new False) (EvString ''noteon'') (Function 1)
                    (Some no_options)))
            ANY_EVENT (Function 2) (Some no_options))"

text \<open>
  Messages reach the channel one at a time, each through its own call of
  \<open>_processMidiMessageEvent\<close>, and the parser keeps nothing from one call to the next.
\<close>

definition feed :: "environment \<Rightarrow> InputChannel \<Rightarrow> message list \<Rightarrow> outcome list" where
  "feed env ch ms = map (processMidiMessageEvent env ch) ms"

definition all_emitted_names :: "outcome list \<Rightarrow> string list" where
  "all_emitted_names outs = concat (map emitted_names outs)"

definition is_parameter_number_event :: "string \<Rightarrow> bool" where
  "is_parameter_number_event name = (name \<in> set parameter_number_events)"

text \<open>
  A control-change table that names no controller like a parameter-number event, and an
  outcome without a parameter-number event among the emitted ones.
\<close>

definition names_no_parameter_number_event :: "(string \<times> nat) list \<Rightarrow> bool" where
  "names_no_parameter_number_event tbl =
     list_all (\<lambda>p. \<not> is_parameter_number_event (fst p)) tbl"

definition quiet :: "outcome \<Rightarrow> bool" where
  "quiet out = (filter is_parameter_number_event (emitted_names out) = [])"

text \<open>A control-change message with two data bytes and a controller number below 120.\<close>

definition controlchange_below_120 :: "message \<Rightarrow> bool" where
  "controlchange_below_120 m =
     (mtype m = ''controlchange'' \<and> length (dataBytes m) = 2 \<and> hd (dataBytes m) < 120)"

text \<open>The four messages CC99 = 3, CC98 = 12, CC6 = 64 and CC38 = 0, in that order.\<close>

definition parameter_number_sequence :: "message list" where
  "parameter_number_sequence =
     [controlchange_message 99 3, controlchange_message 98 12,
      controlchange_message 6 64, controlchange_message 38 0]"

definition example_WebMidi :: WebMidi where
  "example_WebMidi = \<lparr> wm_validation = True, wm_octaveOffset = JNum 0 \<rparr>"

section \<open>Properties of the numeric conversions\<close>

lemma js_round_of_int: "js_round (of_int v) = v"
  by (simp add: js_round_def) linarith

lemma from7bitToFloat_in_range:
  assumes "0 \<le> v" and "v \<le> 127"
  shows "from7bitToFloat (JNum (of_int v)) = of_int v / 127"
  using assms by (simp add: clamp_def)

text \<open>
  Claim C8. For every integer \<open>v\<close> from 0 to 127, converting \<open>v\<close> to a float with
  \<open>from7bitToFloat\<close> and back with \<open>fromFloatTo7Bit\<close> gives \<open>v\<close> again.
\<close>

theorem fromFloatTo7Bit_from7bitToFloat:
  assumes "0 \<le> v" and "v \<le> 127"
  shows "fromFloatTo7Bit (JNum (from7bitToFloat (JNum (of_int v)))) = v"
proof -
  have unit: "clamp (of_int v / 127) 0 1 = of_int v / 127"
    using assms by (simp add: clamp_def)
  have "fromFloatTo7Bit (JNum (from7bitToFloat (JNum (of_int v))))
      = fromFloatTo7Bit (JNum (of_int v / 127))"
    by (simp only: from7bitToFloat_in_range [OF assms])
  also have "\<dots> = js_round (of_int v)"
    by (simp add: unit)
  also have "\<dots> = v"
    by (rule js_round_of_int)
  finally show ?thesis .
qed

theorem fromFloatTo7Bit_from7bitToFloat_witness:
  "(0::int) \<le> 100 \<and> (100::int) \<le> 127
    \<and> fromFloatTo7Bit (JNum (from7bitToFloat (JNum (of_int 100)))) = 100"
  using fromFloatTo7Bit_from7bitToFloat [of 100] by simp

section \<open>Properties of the channel parser\<close>

lemmas parser_defs =
  processMidiMessageEvent_def parseEventForStandardMessages_def parseChannelModeMessage_def
  andThen_def emit_event_def throw_def midimessage_event_def nth_opt_def
  getCcNameByNumber_def Let_def byte_def toNormalized_def

lemmas example_defs =
  example_environment_def example_channel_def channel_message_def
  controlchange_message_def channel_mode_names_def

lemma controlchange_below_120_values:
  assumes "mtype m = ''controlchange''" and "dataBytes m = [n, v]" and "n < 120"
  shows "emitted_values (processMidiMessageEvent env ch m) =
           [(''midimessage'', JUndefined, JUndefined),
            (''controlchange'', JNum (from7bitToFloat (JNum (of_nat v))), JNum (of_nat v))]"
  using assms by (simp add: parser_defs emitted_values_def)

lemma controlchange_below_120_no_error:
  assumes "mtype m = ''controlchange''" and "dataBytes m = [n, v]" and "n < 120"
  shows "snd (processMidiMessageEvent env ch m) = None"
  using assms by (simp add: parser_defs)

lemma controlchange_below_120_names:
  assumes "controlchange_below_120 m"
  shows "emitted_names (processMidiMessageEvent env ch m) = [''midimessage'', ''controlchange'']"
proof -
  from assms obtain n v where bytes: "dataBytes m = [n, v]"
    by (cases "dataBytes m"; cases "tl (dataBytes m)")
       (auto simp: controlchange_below_120_def)
  with assms have "mtype m = ''controlchange''" and "n < 120"
    by (simp_all add: controlchange_below_120_def)
  with bytes show ?thesis
    by (simp add: parser_defs emitted_names_def)
qed

text \<open>
  Claim C2, as the code has it. For every controller number \<open>n\<close> below 120, a
  control-change message with first data byte \<open>n\<close> makes the channel emit two events
  and no more, \<open>midimessage\<close> and then the generic \<open>controlchange\<close>, without an
  exception; the \<open>controlchange\<close> event carries the second data byte as its raw value
  and \<open>from7bitToFloat\<close> of it as its value. No \<open>controlchange-controller<n>\<close> event
  is emitted.
\<close>

theorem controlchange_emits_generic_event_only:
  assumes "mtype m = ''controlchange''" and "dataBytes m = [n, v]" and "n < 120"
  shows "emitted_values (processMidiMessageEvent env ch m) =
           [(''midimessage'', JUndefined, JUndefined),
            (''controlchange'', JNum (from7bitToFloat (JNum (of_nat v))), JNum (of_nat v))]
         \<and> snd (processMidiMessageEvent env ch m) = None"
  using assms
  by (simp only: controlchange_below_120_values controlchange_below_120_no_error simp_thms)

theorem controlchange_emits_generic_event_only_witness:
  "mtype (controlchange_message 7 64) = ''controlchange''
   \<and> dataBytes (controlchange_message 7 64) = [7, 64]
   \<and> (7::nat) < 120
   \<and> emitted_values (processMidiMessageEvent example_environment example_channel
         (controlchange_message 7 64)) =
        [(''midimessage'', JUndefined, JUndefined),
         (''controlchange'', JNum (64 / 127), JNum 64)]
   \<and> snd (processMidiMessageEvent example_environment example_channel
         (controlchange_message 7 64)) = None"
  using controlchange_emits_generic_event_only
    [of "controlchange_message 7 64" 7 64 example_environment example_channel]
  by (simp add: controlchange_message_def channel_message_def clamp_def)

text \<open>
  Claim C2 as stated fails: the control-change message for controller 7 with value 64
  emits \<open>midimessage\<close> and \<open>controlchange\<close>, and no event named
  \<open>controlchange-controller7\<close>.
\<close>

theorem controlchange_controller7_not_emitted:
  "emitted_names (processMidiMessageEvent example_environment example_channel
      (controlchange_message 7 64)) = [''midimessage'', ''controlchange'']
   \<and> ''controlchange-controller7'' \<notin> set (emitted_names
        (processMidiMessageEvent example_environment example_channel
           (controlchange_message 7 64)))"
  by (simp add: parser_defs example_defs emitted_names_def)

lemma all_emitted_names_Cons:
  "all_emitted_names (feed env ch (m # ms)) =
     emitted_names (processMidiMessageEvent env ch m) @ all_emitted_names (feed env ch ms)"
  by (simp add: all_emitted_names_def feed_def)

lemma feed_controlchange_below_120:
  assumes "list_all controlchange_below_120 ms"
  shows "all_emitted_names (feed env ch ms) =
           concat (replicate (length ms) [''midimessage'', ''controlchange''])"
  using assms
proof (induction ms)
  case Nil
  show ?case by (simp add: all_emitted_names_def feed_def)
next
  case (Cons m ms)
  then have "controlchange_below_120 m" and "list_all controlchange_below_120 ms"
    by simp_all
  then show ?case
    using Cons.IH by (simp add: all_emitted_names_Cons controlchange_below_120_names)
qed

lemma parameter_number_sequence_names:
  "all_emitted_names (feed env ch parameter_number_sequence) =
     [''midimessage'', ''controlchange'', ''midimessage'', ''controlchange'',
      ''midimessage'', ''controlchange'', ''midimessage'', ''controlchange'']"
proof -
  have "list_all controlchange_below_120 parameter_number_sequence"
    by (simp add: parameter_number_sequence_def controlchange_below_120_def
        controlchange_message_def channel_message_def)
  from feed_controlchange_below_120 [OF this, of env ch] show ?thesis
    by (simp add: parameter_number_sequence_def)
qed

lemma getPropertyByValue_safe:
  assumes "names_no_parameter_number_event tbl" and "getPropertyByValue tbl v = Some name"
  shows "\<not> is_parameter_number_event name"
  using assms unfolding names_no_parameter_number_event_def
  by (induction tbl) (auto split: if_splits)

lemma fixed_names_not_parameter_number:
  "\<not> is_parameter_number_event ''midimessage''"
  "\<not> is_parameter_number_event ''noteoff''"
  "\<not> is_parameter_number_event ''noteon''"
  "\<not> is_parameter_number_event ''keyaftertouch''"
  "\<not> is_parameter_number_event ''controlchange''"
  "\<not> is_parameter_number_event ''programchange''"
  "\<not> is_parameter_number_event ''channelaftertouch''"
  "\<not> is_parameter_number_event ''pitchbend''"
  "\<not> is_parameter_number_event ''unknownmessage''"
  "\<not> is_parameter_number_event ''omnimode''"
  "\<not> is_parameter_number_event ''monomode''"
  by (simp_all add: is_parameter_number_event_def parameter_number_events_def)

lemma quiet_throw: "quiet (throw err)"
  by (simp add: quiet_def throw_def emitted_names_def)

lemma quiet_emit_event: "\<not> is_parameter_number_event (ev_type ev) \<Longrightarrow> quiet (emit_event ev)"
  by (simp add: quiet_def emit_event_def emitted_names_def)

lemma quiet_andThen: "quiet p \<Longrightarrow> quiet q \<Longrightarrow> quiet (andThen p q)"
  by (simp add: quiet_def andThen_def emitted_names_def split: option.splits)

lemma quiet_nothing: "quiet ([], None)"
  by (simp add: quiet_def emitted_names_def)

lemma quiet_if:
  "(c \<Longrightarrow> quiet a) \<Longrightarrow> (\<not> c \<Longrightarrow> quiet b) \<Longrightarrow> quiet (if c then a else b)"
  by simp

lemma quiet_case_sum:
  "(\<And>err. x = Inl err \<Longrightarrow> quiet (f err)) \<Longrightarrow> (\<And>v. x = Inr v \<Longrightarrow> quiet (g v))
    \<Longrightarrow> quiet (case x of Inl err \<Rightarrow> f err | Inr v \<Rightarrow> g v)"
  by (cases x) simp_all

lemma quiet_parseChannelModeMessage:
  assumes "\<And>number name. ev_controller e = Some (number, Some name)
             \<Longrightarrow> \<not> is_parameter_number_event name"
  shows "quiet (parseChannelModeMessage e)"
proof (cases "ev_controller e")
  case None
  then show ?thesis
    by (simp add: parseChannelModeMessage_def quiet_throw)
next
  case (Some p)
  obtain number name where p: "p = (number, name)"
    by (cases p)
  show ?thesis
  proof (cases name)
    case None
    with Some p show ?thesis
      by (simp add: parseChannelModeMessage_def quiet_throw)
  next
    case (Some nm)
    with \<open>ev_controller e = Some p\<close> p assms have "\<not> is_parameter_number_event nm"
      by simp
    with Some \<open>ev_controller e = Some p\<close> p show ?thesis
      by (auto simp add: parseChannelModeMessage_def Let_def quiet_def emitted_names_def
          emit_event_def fixed_names_not_parameter_number)
  qed
qed

lemma quiet_parseEventForStandardMessages:
  assumes "names_no_parameter_number_event (MIDI_CONTROL_CHANGE_MESSAGES env)"
  shows "quiet (parseEventForStandardMessages env ch e)"
  unfolding parseEventForStandardMessages_def Let_def
  apply (intro quiet_if quiet_case_sum quiet_throw quiet_emit_event quiet_andThen
      quiet_nothing quiet_parseChannelModeMessage)
          apply (auto simp add: fixed_names_not_parameter_number getCcNameByNumber_def
      dest: getPropertyByValue_safe [OF assms] split: if_splits)
  done

lemma quiet_processMidiMessageEvent:
  assumes "names_no_parameter_number_event (MIDI_CONTROL_CHANGE_MESSAGES env)"
  shows "quiet (processMidiMessageEvent env ch m)"
  unfolding processMidiMessageEvent_def
proof (rule quiet_andThen)
  show "quiet (emit_event (midimessage_event m))"
    by (rule quiet_emit_event) (simp add: midimessage_event_def fixed_names_not_parameter_number)
  show "quiet (parseEventForStandardMessages env ch (midimessage_event m))"
    by (rule quiet_parseEventForStandardMessages [OF assms])
qed

lemma feed_quiet:
  assumes "names_no_parameter_number_event (MIDI_CONTROL_CHANGE_MESSAGES env)"
  shows "filter is_parameter_number_event (all_emitted_names (feed env ch ms)) = []"
proof (induction ms)
  case Nil
  show ?case by (simp add: all_emitted_names_def feed_def)
next
  case (Cons m ms)
  from quiet_processMidiMessageEvent [OF assms, of ch m]
  have "filter is_parameter_number_event (emitted_names (processMidiMessageEvent env ch m)) = []"
    by (simp add: quiet_def)
  with Cons.IH show ?case
    by (simp add: all_emitted_names_Cons)
qed

text \<open>
  Claim C3, as the code has it. The parameter-number parser and its call are commented
  out, and the channel has no parameter-number buffer. Fed CC99 = 3, CC98 = 12,
  CC6 = 64 and CC38 = 0 in that order, a channel emits a \<open>midimessage\<close> and a
  \<open>controlchange\<close> event for each message and nothing else. And as long as the
  control-change table names no controller like a parameter-number event, no sequence
  of messages of any kind makes a channel emit a parameter-number event, whole or
  partial.
\<close>

theorem controlchange_sequence_emits_no_parameter_number_event:
  assumes "names_no_parameter_number_event (MIDI_CONTROL_CHANGE_MESSAGES env)"
  shows "all_emitted_names (feed env ch parameter_number_sequence) =
           [''midimessage'', ''controlchange'', ''midimessage'', ''controlchange'',
            ''midimessage'', ''controlchange'', ''midimessage'', ''controlchange'']
         \<and> (\<forall>ms. filter is_parameter_number_event (all_emitted_names (feed env ch ms)) = [])"
  using feed_quiet [OF assms, of ch]
  by (simp only: parameter_number_sequence_names simp_thms)

text \<open>
  An instance: the table of the channel-mode names, the four messages, and for the
  second part the broken sequence CC99 = 3, CC6 = 64.
\<close>

theorem controlchange_sequence_emits_no_parameter_number_event_witness:
  "names_no_parameter_number_event (MIDI_CONTROL_CHANGE_MESSAGES example_environment)
   \<and> all_emitted_names (feed example_environment example_channel parameter_number_sequence) =
       [''midimessage'', ''controlchange'', ''midimessage'', ''controlchange'',
        ''midimessage'', ''controlchange'', ''midimessage'', ''controlchange'']
   \<and> filter is_parameter_number_event
       (all_emitted_names (feed example_environment example_channel
          [controlchange_message 99 3, controlchange_message 6 64])) = []"
proof -
  have table: "names_no_parameter_number_event
      (MIDI_CONTROL_CHANGE_MESSAGES example_environment)"
    by (simp add: names_no_parameter_number_event_def example_environment_def
        channel_mode_names_def is_parameter_number_event_def parameter_number_events_def)
  from controlchange_sequence_emits_no_parameter_number_event
         [OF table, of example_channel]
  have "all_emitted_names (feed example_environment example_channel
          parameter_number_sequence) =
       [''midimessage'', ''controlchange'', ''midimessage'', ''controlchange'',
        ''midimessage'', ''controlchange'', ''midimessage'', ''controlchange'']"
    and "filter is_parameter_number_event
       (all_emitted_names (feed example_environment example_channel
          [controlchange_message 99 3, controlchange_message 6 64])) = []"
    by blast+
  with table show ?thesis
    by (simp only: simp_thms)
qed

text \<open>
  Claim C3 as stated fails: fed CC99 = 3, CC98 = 12, CC6 = 64 and CC38 = 0 in that
  order, the channel emits eight events, a \<open>midimessage\<close> and a \<open>controlchange\<close> for
  each message, and none of the \<open>nrpn\<close> family.
\<close>

theorem parameter_number_sequence_emits_no_nrpn:
  "all_emitted_names (feed example_environment example_channel parameter_number_sequence) =
     [''midimessage'', ''controlchange'', ''midimessage'', ''controlchange'',
      ''midimessage'', ''controlchange'', ''midimessage'', ''controlchange'']
   \<and> length (filter is_parameter_number_event
         (all_emitted_names (feed example_environment example_channel
            parameter_number_sequence))) = 0"
  by (simp add: all_emitted_names_def feed_def parser_defs example_defs emitted_names_def
      parameter_number_sequence_def is_parameter_number_event_def
      parameter_number_events_def)

lemma noteon_velocity_zero_names:
  assumes "mtype m = ''noteon''" and "dataBytes m = [n, 0]"
  shows "emitted_names (processMidiMessageEvent env ch m) = [''midimessage'', ''noteon'']"
  using assms by (simp add: parser_defs emitted_names_def)

text \<open>
  Claim C4, on the code. A note-on message for note 60 with velocity 0 goes through the
  note-off branch, which builds the note with attack 0 and release
  \<open>from7bitToFloat(0) = 0\<close> and sets the value 0, but the type of the event is left as
  it was: the event is emitted under the name \<open>noteon\<close>, not \<open>noteoff\<close>.
\<close>

theorem noteon_velocity_zero_emitted_as_noteon:
  "emitted_values (processMidiMessageEvent example_environment example_channel
      (channel_message ''noteon'' 144 60 0)) =
     [(''midimessage'', JUndefined, JUndefined), (''noteon'', JNum 0, JNum 0)]
   \<and> map (ev_note \<circ> snd) (fst (processMidiMessageEvent example_environment example_channel
        (channel_message ''noteon'' 144 60 0))) =
     [None, Some \<lparr> note_number = 60, attack = 0, release = 0 \<rparr>]"
  by (simp add: parser_defs example_defs emitted_values_def Note_new_def clamp_def
      rawRelease_def)





lemma shl7_byte: "n \<le> 255 \<Longrightarrow> shl7 (Some n) = int n * 2 ^ 7"
  by (simp add: shl7_def Let_def)

text \<open>
  Claim C7. For a pitch-bend message with data bytes \<open>data1\<close> and \<open>data2\<close> between 0
  and 127, the emitted \<open>pitchbend\<close> event has the raw value \<open>(data2 << 7) + data1\<close>,
  which is \<open>data2 * 2^7 + data1\<close>, and the value \<open>((data2 << 7) + data1 - 8192) / 8192\<close>.
\<close>

theorem pitchbend_value:
  assumes "mtype m = ''pitchbend''" and "dataBytes m = [data1, data2]"
    and "data1 \<le> 127" and "data2 \<le> 127"
  shows "emitted_values (processMidiMessageEvent env ch m) =
           [(''midimessage'', JUndefined, JUndefined),
            (''pitchbend'',
             JNum ((of_nat (data2 * 2 ^ 7 + data1) - 8192) / 8192),
             JNum (of_nat (data2 * 2 ^ 7 + data1)))]"
  using assms by (simp add: parser_defs emitted_values_def shl7_byte plus_byte_def bend_def)

text \<open>
  The two instances of the claim: bytes 0 and 64 give the value 0, bytes 127 and 127 give
  8191/8192.
\<close>

theorem pitchbend_value_witness:
  "mtype (channel_message ''pitchbend'' 224 0 64) = ''pitchbend''
   \<and> dataBytes (channel_message ''pitchbend'' 224 0 64) = [0, 64]
   \<and> (0::nat) \<le> 127 \<and> (64::nat) \<le> 127
   \<and> emitted_values (processMidiMessageEvent example_environment example_channel
        (channel_message ''pitchbend'' 224 0 64)) =
       [(''midimessage'', JUndefined, JUndefined), (''pitchbend'', JNum 0, JNum 8192)]
   \<and> emitted_values (processMidiMessageEvent example_environment example_channel
        (channel_message ''pitchbend'' 224 127 127)) =
       [(''midimessage'', JUndefined, JUndefined),
        (''pitchbend'', JNum (8191 / 8192), JNum 16383)]"
  using pitchbend_value
      [of "channel_message ''pitchbend'' 224 0 64" 0 64 example_environment example_channel]
    pitchbend_value
      [of "channel_message ''pitchbend'' 224 127 127" 127 127 example_environment
          example_channel]
  by (simp add: channel_message_def)

section \<open>Properties of the octave-offset setters\<close>

lemma InputChannel_set_octaveOffset_validated:
  assumes "truthy (co_validation this)" and "js_isNaN (js_parseInt v)"
  shows "InputChannel_set_octaveOffset this v = (Some TypeError, this)"
  using assms by (simp add: InputChannel_set_octaveOffset_def)

lemma InputChannel_set_octaveOffset_unvalidated:
  assumes "\<not> truthy (co_validation this)"
  shows "InputChannel_set_octaveOffset this v = (None, this\<lparr>co_octaveOffset := v\<rparr>)"
  using assms by (simp add: InputChannel_set_octaveOffset_def)

lemma WebMidi_set_octaveOffset_throws:
  "WebMidi_set_octaveOffset w v = (Some ReferenceError, w)"
  by (simp add: WebMidi_set_octaveOffset_def read_identifier_def Let_def)

text \<open>
  Claim C6, on the code. Assigning the string \<open>abc\<close>, which does not parse to an
  integer: the setter of a channel as constructed throws nothing and stores the string,
  because the flag it tests is \<open>undefined\<close>; the setter of \<open>WebMidi\<close> throws a
  \<open>ReferenceError\<close>, not a \<open>TypeError\<close>, and leaves the stored offset as it was.
\<close>

theorem octaveOffset_setters_on_unparsable_value:
  "js_isNaN (js_parseInt (JStr ''abc''))
   \<and> InputChannel_set_octaveOffset InputChannel_new (JStr ''abc'')
       = (None, InputChannel_new\<lparr>co_octaveOffset := JStr ''abc''\<rparr>)
   \<and> WebMidi_set_octaveOffset example_WebMidi (JStr ''abc'')
       = (Some ReferenceError, example_WebMidi)"
  by (simp add: InputChannel_set_octaveOffset_def InputChannel_new_def
      WebMidi_set_octaveOffset_def read_identifier_def example_WebMidi_def
      js_isNaN_def parse_signed_def parse_magnitude_def digit_value_def is_blank_def)

section \<open>Properties of the event emitter\<close>

lemmas emitter_defs =
  emitter_A_then_B_def addListener_def Listener_new_def EventEmitter_new_def
  no_options_def Let_def

text \<open>
  What \<open>emit\<close> returns in general: \<open>undefined\<close> from a suspended emitter, an array
  otherwise; and when the listeners are steady, the array holds their results in the
  order of the snapshot, which has the listeners of \<open>ANY_EVENT\<close> before those of the
  event name.
\<close>

lemma emit_suspended:
  assumes "eventsSuspended em"
  shows "emit em run (EvString s) args = (Inr None, em)"
  using assms by (simp add: emit_def)

lemma emit_not_suspended:
  assumes "\<not> eventsSuspended em"
  shows "\<exists>results. fst (emit em run (EvString s) args) = Inr (Some results)"
  using assms by (simp add: emit_def Let_def)

lemma emit_step_steady:
  assumes "steady em r"
  shows "\<exists>em'. emit_step run args (results, em) r = (results @ [call run args em r], em')
           \<and> (\<forall>q. steady em' q = steady em q)
           \<and> (\<forall>q. call run args em' q = call run args em q)"
  using assms
  by (auto simp add: emit_step_def steady_def call_def Let_def split: option.splits)

lemma foldl_emit_step_steady:
  assumes "list_all (steady em) rs"
  shows "fst (foldl (emit_step run args) (results, em) rs)
           = results @ map (call run args em) rs"
  using assms
proof (induction rs arbitrary: results em)
  case Nil
  show ?case by simp
next
  case (Cons r rs)
  then have "steady em r" and rest: "list_all (steady em) rs"
    by simp_all
  then obtain em' where
      step: "emit_step run args (results, em) r = (results @ [call run args em r], em')"
      and same_steady: "\<And>q. steady em' q = steady em q"
      and same_call: "\<And>q. call run args em' q = call run args em q"
    using emit_step_steady [of em r run args results] by blast
  from rest same_steady have "list_all (steady em') rs"
    by (simp add: list_all_iff)
  from Cons.IH [OF this, of "results @ [call run args em r]"] step same_call
  show ?case by (simp cong: map_cong)
qed

lemma emit_steady_results:
  assumes "\<not> eventsSuspended em" and "list_all (steady em) (snapshot em s)"
  shows "fst (emit em run (EvString s) args)
           = Inr (Some (map (call run args em) (snapshot em s)))"
  using assms foldl_emit_step_steady [of em "snapshot em s" run args "[]"]
  by (auto simp add: emit_def snapshot_def Let_def split: option.splits)

text \<open>
  Claim C1, on the code. Listener A is registered for \<open>noteon\<close>, then listener B for
  \<open>ANY_EVENT\<close>. Emitting \<open>noteon\<close> calls B first and A second: the array of results,
  filled in the order of the calls, is B's result followed by A's.
\<close>

theorem emit_calls_global_listener_first:
  "eventMap emitter_A_then_B = [''noteon'' \<mapsto> [0], ''Symbol(Any event)'' \<mapsto> [1]]
   \<and> fst (emit emitter_A_then_B named_callbacks (EvString ''noteon'') [])
       = Inr (Some [JStr ''B'', JStr ''A''])"
  by (simp add: emitter_defs emit_def emit_step_def named_callbacks_def)

text \<open>
  Claim C9, on the code. With the emitter suspended, \<open>emit\<close> on a string event name
  returns \<open>undefined\<close>, not an array, and leaves the emitter as it was.
\<close>

theorem emit_suspended_returns_undefined:
  "emit (emitter_A_then_B\<lparr>eventsSuspended := True\<rparr>) named_callbacks (EvString ''noteon'') []
     = (Inr None, emitter_A_then_B\<lparr>eventsSuspended := True\<rparr>)"
  by (simp add: emit_def)

text \<open>
  Claim C10. For every emitter, every non-empty string event name and every function,
  \<open>addListener\<close> called without options throws a \<open>TypeError\<close> and leaves the emitter
  as it was: no listener is registered.
\<close>

theorem addListener_without_options:
  assumes "s \<noteq> []"
  shows "addListener em (EvString s) (Function f) None = (Inl TypeError, em)"
  using assms by (simp add: addListener_def Listener_new_def)

theorem addListener_without_options_witness:
  "''noteon'' \<noteq> []
   \<and> addListener emitter_A_then_B (EvString ''noteon'') (Function 3) None
       = (Inl TypeError, emitter_A_then_B)"
  using addListener_without_options [of "''noteon''" emitter_A_then_B 3] by simp

end
